theory Spec2Isabelle
  imports Complex_Main "HOL-Library.Word"
begin

section \<open>The document service as seen by the client\<close>

text \<open>
  Both components talk to the service through \<^verbatim>\<open>fetch\<close> inside a
  \<^verbatim>\<open>try\<close> block. A call either rejects (the request could not complete), or
  resolves with a response carrying the flag \<^verbatim>\<open>response.ok\<close> and a body;
  \<^verbatim>\<open>await response.json()\<close> either yields the parsed body or rejects. The body
  is \<open>None\<close> when parsing rejects or when reading the payload out of the parsed value
  throws (both happen inside the same \<^verbatim>\<open>try\<close>); otherwise it is the payload,
  taken to have the type the component declares for it.
\<close>

datatype 'a response = NetworkFailure | Response bool "'a option"

text \<open>The payload of a response that takes the success path of the \<^verbatim>\<open>try\<close> block.\<close>

fun payload :: "'a response \<Rightarrow> 'a option" where
  "payload NetworkFailure = None"
| "payload (Response ok body) = (if ok then body else None)"

type_synonym headers = "(string \<times> string) list"

text \<open>
  Every request builds its headers the same way: the content type, and the key when
  \<^verbatim>\<open>apiKey\<close> is truthy (a non-empty string).
\<close>

definition mkHeaders :: "string \<Rightarrow> headers" where
  "mkHeaders key =
     (if key \<noteq> [] then [(''Content-Type'', ''application/json''), (''X-API-Key'', key)]
      else [(''Content-Type'', ''application/json'')])"

section \<open>DocumentList: the paginated collection loader\<close>

record Document =
  document_id :: string
  filename :: string
  upload_time :: string
  file_size :: int
  content_type :: string
  processing_complete :: bool
  processing_error :: "string option"

text \<open>\<^verbatim>\<open>GET /api/documents?skip=..&limit=..\<close> with its headers.\<close>

datatype list_request = ListDocuments int int headers

text \<open>
  The component's prop (\<open>apiKey\<close>), its five state variables, and the log of the
  \<^verbatim>\<open>fetch\<close> calls it has made, oldest first.
\<close>

record list_state =
  apiKey :: string
  documents :: "Document list"
  isLoading :: bool
  error :: "string option"
  page :: int
  hasMore :: bool
  requests :: "list_request list"

definition limit :: int where
  "limit = 10"

definition initial :: "string \<Rightarrow> list_state" where
  "initial key =
     \<lparr>apiKey = key, documents = [], isLoading = True, error = None, page = 1,
      hasMore = True, requests = []\<rparr>"

text \<open>
  \<^verbatim>\<open>fetchDocuments\<close>, from the call to the end of its \<^verbatim>\<open>finally\<close> block, for
  the response \<open>r\<close> the service gives. The "Load More" button is the only other
  handler of the component and is not rendered while \<open>isLoading\<close> holds, so nothing
  runs between the request and its continuation.
\<close>

definition fetchDocuments :: "list_state \<Rightarrow> Document list response \<Rightarrow> list_state" where
  "fetchDocuments s r =
     (let skip = (page s - 1) * limit;
          s1 = s\<lparr>list_state.isLoading := True, list_state.error := None,
                 list_state.requests :=
                   list_state.requests s @ [ListDocuments skip limit (mkHeaders (list_state.apiKey s))]\<rparr>;
          s2 = (case payload r of
                  Some docs \<Rightarrow>
                    (let s' = (if int (length docs) < limit then s1\<lparr>hasMore := False\<rparr> else s1)
                     in if page s = 1 then s'\<lparr>documents := docs\<rparr>
                        else s'\<lparr>documents := documents s' @ docs\<rparr>)
                | None \<Rightarrow>
                    s1\<lparr>list_state.error := Some ''Failed to load documents. Please try again.''\<rparr>)
      in s2\<lparr>list_state.isLoading := False\<rparr>)"

text \<open>
  The "Load More" button: when it is rendered, and what a click does. The table that
  holds the button replaces the "No documents found" panel, which is rendered when the
  list is empty and nothing is loading.
\<close>

definition loadMoreVisible :: "list_state \<Rightarrow> bool" where
  "loadMoreVisible s =
     (\<not> (documents s = [] \<and> \<not> list_state.isLoading s)
      \<and> hasMore s \<and> \<not> list_state.isLoading s)"

definition loadMore :: "list_state \<Rightarrow> list_state" where
  "loadMore s = s\<lparr>page := page s + 1\<rparr>"

text \<open>
  \<open>loaded ps s\<close>: the component reaches \<open>s\<close> by loading the pages \<open>ps\<close> one after the
  other, each load succeeding. The first load is the effect run at mount; each later one
  is a click on "Load More" while the button is rendered, which advances \<open>page\<close> and
  so runs the effect again.
\<close>

inductive loaded :: "string \<Rightarrow> Document list list \<Rightarrow> list_state \<Rightarrow> bool" for key :: string where
  loaded_mount: "loaded key [docs] (fetchDocuments (initial key) (Response True (Some docs)))"
| loaded_more: "loaded key ps s \<Longrightarrow> loadMoreVisible s \<Longrightarrow>
     loaded key (ps @ [docs]) (fetchDocuments (loadMore s) (Response True (Some docs)))"

text \<open>
  \<open>evolves s t\<close>: \<open>t\<close> comes from \<open>s\<close> by any number of page loads, whatever their
  outcome, and clicks, in any order.
\<close>

inductive evolves :: "list_state \<Rightarrow> list_state \<Rightarrow> bool" for s :: list_state where
  evolves_refl: "evolves s s"
| evolves_fetch: "evolves s t \<Longrightarrow> evolves s (fetchDocuments t r)"
| evolves_click: "evolves s t \<Longrightarrow> evolves s (loadMore t)"

section \<open>DocumentViewer: the document detail orchestrator\<close>

text \<open>
  The text of the query box is a JavaScript string: a sequence of 16-bit code units.
  \<^verbatim>\<open>String.prototype.trim\<close> removes from both ends the code units that
  ECMAScript calls white space or line terminators.
\<close>

type_synonym jsstring = "16 word list"

definition isWhiteSpace :: "16 word \<Rightarrow> bool" where
  "isWhiteSpace c =
     (c \<in> {0x9, 0xA, 0xB, 0xC, 0xD, 0x20, 0xA0, 0x1680, 0x2028, 0x2029, 0x202F, 0x205F,
            0x3000, 0xFEFF}
      \<or> (0x2000 \<le> c \<and> c \<le> 0x200A))"

definition trim :: "jsstring \<Rightarrow> jsstring" where
  "trim q = rev (dropWhile isWhiteSpace (rev (dropWhile isWhiteSpace q)))"

record DocumentInfo =
  document_id :: string
  filename :: string
  upload_time :: string
  file_size :: int
  content_type :: string
  text_length :: "int option"
  has_docling_data :: bool
  processing_complete :: bool
  processing_time :: "real option"
  processing_error :: "string option"

record Summary =
  document_id :: string
  summary :: string
  processed_with_docling :: bool
  processing_time :: real
  tokens_used :: "int option"

record KeyPoint =
  point :: string
  relevance :: "real option"

record KeyPointsResponse =
  document_id :: string
  key_points :: "KeyPoint list"
  processed_with_docling :: bool
  processing_time :: real
  tokens_used :: "int option"

datatype tab = SummaryTab | KeyPointsTab | QueryTab

text \<open>
  The four requests of the component, each with the document identifier of its URL and
  its headers: \<^verbatim>\<open>GET /api/document/{id}\<close>,
  \<^verbatim>\<open>GET /api/document/{id}/summary?max_length=..\<close>,
  \<^verbatim>\<open>GET /api/document/{id}/key_points?max_points=..\<close> and
  \<^verbatim>\<open>POST /api/document/{id}/query\<close> with the query text as body.
\<close>

datatype request =
    GetDocument string headers
  | GetSummary string int headers
  | GetKeyPoints string int headers
  | PostQuery string headers jsstring

fun requestId :: "request \<Rightarrow> string" where
  "requestId (GetDocument i h) = i"
| "requestId (GetSummary i n h) = i"
| "requestId (GetKeyPoints i n h) = i"
| "requestId (PostQuery i h b) = i"

fun isDocumentRequest :: "request \<Rightarrow> bool" where
  "isDocumentRequest (GetDocument i h) = True"
| "isDocumentRequest _ = False"

fun isSummaryRequest :: "request \<Rightarrow> bool" where
  "isSummaryRequest (GetSummary i n h) = True"
| "isSummaryRequest _ = False"

fun isKeyPointsRequest :: "request \<Rightarrow> bool" where
  "isKeyPointsRequest (GetKeyPoints i n h) = True"
| "isKeyPointsRequest _ = False"

fun isQueryRequest :: "request \<Rightarrow> bool" where
  "isQueryRequest (PostQuery i h b) = True"
| "isQueryRequest _ = False"

text \<open>The requests for a derived artifact: all but the metadata request.\<close>

definition isDerivedRequest :: "request \<Rightarrow> bool" where
  "isDerivedRequest q = (isSummaryRequest q \<or> isKeyPointsRequest q \<or> isQueryRequest q)"

text \<open>
  The prop \<open>apiKey\<close>, the route parameter \<open>documentId\<close>, the nine state variables,
  and the network: \<open>requests\<close> logs every \<^verbatim>\<open>fetch\<close> call, oldest first, and
  \<open>pending\<close> holds the calls whose promise has not settled yet.
\<close>

record viewer_state =
  apiKey :: string
  documentId :: "string option"
  activeTab :: tab
  documentInfo :: "DocumentInfo option"
  summary :: "Summary option"
  keyPoints :: "KeyPointsResponse option"
  query :: jsstring
  queryResponse :: "string option"
  isLoading :: bool
  isQuerying :: bool
  error :: "string option"
  requests :: "request list"
  pending :: "request list"

definition initialViewer :: "string \<Rightarrow> string option \<Rightarrow> viewer_state" where
  "initialViewer key i =
     \<lparr>apiKey = key, documentId = i, activeTab = SummaryTab, documentInfo = None,
      summary = None, keyPoints = None, query = [], queryResponse = None,
      isLoading = True, isQuerying = False, error = None, requests = [], pending = []\<rparr>"

text \<open>\<^verbatim>\<open>documentId\<close> is truthy: defined and not the empty string.\<close>

definition hasDocumentId :: "viewer_state \<Rightarrow> bool" where
  "hasDocumentId s = (case documentId s of None \<Rightarrow> False | Some i \<Rightarrow> i \<noteq> [])"

text \<open>\<^verbatim>\<open>documentInfo?.processing_complete\<close> is truthy.\<close>

definition processingComplete :: "viewer_state \<Rightarrow> bool" where
  "processingComplete s =
     (case documentInfo s of None \<Rightarrow> False | Some d \<Rightarrow> DocumentInfo.processing_complete d)"

text \<open>The guard of the three derived fetch functions.\<close>

definition eligible :: "viewer_state \<Rightarrow> bool" where
  "eligible s = (hasDocumentId s \<and> processingComplete s)"

definition issue :: "request \<Rightarrow> viewer_state \<Rightarrow> viewer_state" where
  "issue q s = s\<lparr>requests := requests s @ [q], pending := pending s @ [q]\<rparr>"

text \<open>
  Each fetch function runs in two parts: from the call up to the
  \<^verbatim>\<open>await fetch(..)\<close>, and, once the promise has settled with \<open>r\<close>, the rest of
  the \<^verbatim>\<open>try\<close>, the \<^verbatim>\<open>catch\<close> and the \<^verbatim>\<open>finally\<close> (the
  functions named \<open>_settled\<close>). Other handlers may run in between.
\<close>

definition fetchDocumentInfo :: "viewer_state \<Rightarrow> viewer_state" where
  "fetchDocumentInfo s =
     (case documentId s of
        None \<Rightarrow> s
      | Some i \<Rightarrow>
          if i = [] then s
          else issue (GetDocument i (mkHeaders (apiKey s))) (s\<lparr>isLoading := True, error := None\<rparr>))"

definition fetchDocumentInfo_settled :: "viewer_state \<Rightarrow> DocumentInfo response \<Rightarrow> viewer_state" where
  "fetchDocumentInfo_settled s r =
     (case payload r of
        Some data \<Rightarrow> s\<lparr>documentInfo := Some data\<rparr>
      | None \<Rightarrow> s\<lparr>error := Some ''Failed to load document information.''\<rparr>)
     \<lparr>isLoading := False\<rparr>"

definition fetchSummary :: "viewer_state \<Rightarrow> viewer_state" where
  "fetchSummary s =
     (case documentId s of
        None \<Rightarrow> s
      | Some i \<Rightarrow>
          if i = [] \<or> \<not> processingComplete s then s
          else issue (GetSummary i 1000 (mkHeaders (apiKey s)))
                 (s\<lparr>isLoading := True, error := None\<rparr>))"

definition fetchSummary_settled :: "viewer_state \<Rightarrow> Summary response \<Rightarrow> viewer_state" where
  "fetchSummary_settled s r =
     (case payload r of
        Some data \<Rightarrow> s\<lparr>viewer_state.summary := Some data\<rparr>
      | None \<Rightarrow> s\<lparr>error := Some ''Failed to load document summary.''\<rparr>)
     \<lparr>isLoading := False\<rparr>"

definition fetchKeyPoints :: "viewer_state \<Rightarrow> viewer_state" where
  "fetchKeyPoints s =
     (case documentId s of
        None \<Rightarrow> s
      | Some i \<Rightarrow>
          if i = [] \<or> \<not> processingComplete s then s
          else issue (GetKeyPoints i 10 (mkHeaders (apiKey s)))
                 (s\<lparr>isLoading := True, error := None\<rparr>))"

definition fetchKeyPoints_settled :: "viewer_state \<Rightarrow> KeyPointsResponse response \<Rightarrow> viewer_state" where
  "fetchKeyPoints_settled s r =
     (case payload r of
        Some data \<Rightarrow> s\<lparr>keyPoints := Some data\<rparr>
      | None \<Rightarrow> s\<lparr>error := Some ''Failed to load document key points.''\<rparr>)
     \<lparr>isLoading := False\<rparr>"

text \<open>
  \<^verbatim>\<open>handleQuerySubmit\<close>. The body of the answer is the field
  \<^verbatim>\<open>data.response\<close>.
\<close>

definition handleQuerySubmit :: "viewer_state \<Rightarrow> viewer_state" where
  "handleQuerySubmit s =
     (case documentId s of
        None \<Rightarrow> s
      | Some i \<Rightarrow>
          if trim (query s) = [] \<or> i = [] \<or> \<not> processingComplete s then s
          else issue (PostQuery i (mkHeaders (apiKey s)) (trim (query s)))
                 (s\<lparr>isQuerying := True, error := None\<rparr>))"

definition handleQuerySubmit_settled :: "viewer_state \<Rightarrow> string response \<Rightarrow> viewer_state" where
  "handleQuerySubmit_settled s r =
     (case payload r of
        Some answer \<Rightarrow> s\<lparr>queryResponse := Some answer\<rparr>
      | None \<Rightarrow> s\<lparr>error := Some ''Failed to query the document.''\<rparr>)
     \<lparr>isQuerying := False\<rparr>"

text \<open>
  The two effects. The first has the dependency \<^verbatim>\<open>fetchDocumentInfo\<close>, a
  callback renewed when \<open>documentId\<close> or \<open>apiKey\<close> changes. The second depends on
  \<open>activeTab\<close>, \<open>documentInfo\<close> and the callbacks \<^verbatim>\<open>fetchSummary\<close> and
  \<^verbatim>\<open>fetchKeyPoints\<close>, renewed when \<open>documentId\<close>, \<open>documentInfo\<close> or
  \<open>apiKey\<close> changes.
\<close>

definition metadataEffect :: "viewer_state \<Rightarrow> viewer_state" where
  "metadataEffect s = fetchDocumentInfo s"

definition tabEffect :: "viewer_state \<Rightarrow> viewer_state" where
  "tabEffect s =
     (if processingComplete s then
        (if activeTab s = SummaryTab then fetchSummary s
         else if activeTab s = KeyPointsTab then fetchKeyPoints s
         else s)
      else s)"

text \<open>Mounting renders the initial state and runs both effects, in their order.\<close>

definition mount :: "string \<Rightarrow> string option \<Rightarrow> viewer_state" where
  "mount key i = tabEffect (metadataEffect (initialViewer key i))"

text \<open>
  What happens to a mounted component: the route parameter or the prop changes, the
  user selects a tab, edits the query or submits it, or a pending request settles. A
  settling event names the request it answers.
\<close>

datatype event =
    ChangeDocumentId "string option"
  | ChangeApiKey string
  | SetActiveTab tab
  | SetQuery jsstring
  | SubmitQuery
  | DocumentSettled request "DocumentInfo response"
  | SummarySettled request "Summary response"
  | KeyPointsSettled request "KeyPointsResponse response"
  | QuerySettled request "string response"

definition settle :: "request \<Rightarrow> viewer_state \<Rightarrow> viewer_state" where
  "settle q s = s\<lparr>pending := remove1 q (pending s)\<rparr>"

text \<open>
  One event, followed by the effects whose dependencies it changed. Setting a state
  variable or a prop to the value it has changes nothing and runs no effect; a parsed
  response is a new object, so storing it always runs the second effect. An answer to a
  request that is not pending does not occur.
\<close>

fun step :: "viewer_state \<Rightarrow> event \<Rightarrow> viewer_state" where
  "step s (ChangeDocumentId i) =
     (if i = documentId s then s else tabEffect (metadataEffect (s\<lparr>documentId := i\<rparr>)))"
| "step s (ChangeApiKey key) =
     (if key = apiKey s then s else tabEffect (metadataEffect (s\<lparr>apiKey := key\<rparr>)))"
| "step s (SetActiveTab t) =
     (if t = activeTab s then s else tabEffect (s\<lparr>activeTab := t\<rparr>))"
| "step s (SetQuery q) = s\<lparr>query := q\<rparr>"
| "step s SubmitQuery = handleQuerySubmit s"
| "step s (DocumentSettled q r) =
     (if q \<in> set (pending s) \<and> isDocumentRequest q then
        (if payload r = None then fetchDocumentInfo_settled (settle q s) r
         else tabEffect (fetchDocumentInfo_settled (settle q s) r))
      else s)"
| "step s (SummarySettled q r) =
     (if q \<in> set (pending s) \<and> isSummaryRequest q then fetchSummary_settled (settle q s) r
      else s)"
| "step s (KeyPointsSettled q r) =
     (if q \<in> set (pending s) \<and> isKeyPointsRequest q then fetchKeyPoints_settled (settle q s) r
      else s)"
| "step s (QuerySettled q r) =
     (if q \<in> set (pending s) \<and> isQueryRequest q then handleQuerySubmit_settled (settle q s) r
      else s)"

fun run :: "viewer_state \<Rightarrow> event list \<Rightarrow> viewer_state" where
  "run s [] = s"
| "run s (e # es) = run (step s e) es"

text \<open>The requests that the event \<open>e\<close> adds to the log in state \<open>s\<close>.\<close>

definition issuedBy :: "viewer_state \<Rightarrow> event \<Rightarrow> request list" where
  "issuedBy s e = drop (length (requests s)) (requests (step s e))"

text \<open>
  What the render shows of \<open>error\<close>. The message counts when it is truthy (not null and
  not the empty string). While loading without metadata the loading page is returned; with
  a message and no metadata, the error page, which shows the message; otherwise the tabs
  are rendered only when the stored metadata reports \<open>processing_complete\<close>, and the
  panel of the active tab shows the message: the summary and key-points panels unless
  \<open>isLoading\<close> holds, the query panel always. No other part of the page renders
  \<open>error\<close>.
\<close>

definition visibleError :: "viewer_state \<Rightarrow> string option" where
  "visibleError s =
     (case viewer_state.error s of None \<Rightarrow> None | Some e \<Rightarrow> if e = [] then None else Some e)"

definition shownError :: "viewer_state \<Rightarrow> string option" where
  "shownError s =
     (if viewer_state.isLoading s \<and> documentInfo s = None then None
      else if visibleError s \<noteq> None \<and> documentInfo s = None then visibleError s
      else if processingComplete s then
        (case activeTab s of
           SummaryTab \<Rightarrow> if viewer_state.isLoading s then None else visibleError s
         | KeyPointsTab \<Rightarrow> if viewer_state.isLoading s then None else visibleError s
         | QueryTab \<Rightarrow> visibleError s)
      else None)"

text \<open>
  Predicates on events and states used to state the properties below. An event keeps the
  identifier when it is not a change of the route parameter. A summary answer answers its
  request when the summary it carries is that of the document the request names. An event
  reports an unfinished document when it is not a metadata answer saying that processing
  is complete.
\<close>

fun isChangeDocumentId :: "event \<Rightarrow> bool" where
  "isChangeDocumentId (ChangeDocumentId i) = True"
| "isChangeDocumentId _ = False"

fun answersRequest :: "event \<Rightarrow> bool" where
  "answersRequest (SummarySettled q r) =
     (case payload r of None \<Rightarrow> True | Some a \<Rightarrow> Summary.document_id a = requestId q)"
| "answersRequest _ = True"

fun reportsIncomplete :: "event \<Rightarrow> bool" where
  "reportsIncomplete (DocumentSettled q r) =
     (case payload r of None \<Rightarrow> True | Some d \<Rightarrow> \<not> DocumentInfo.processing_complete d)"
| "reportsIncomplete _ = True"

text \<open>The stored summary, when there is one, is the summary of the current document.\<close>

definition summaryPertains :: "viewer_state \<Rightarrow> bool" where
  "summaryPertains s =
     (case viewer_state.summary s of None \<Rightarrow> True
      | Some a \<Rightarrow> documentId s = Some (Summary.document_id a))"

text \<open>Every pending summary request asks for the current document.\<close>

definition pendingPertain :: "viewer_state \<Rightarrow> bool" where
  "pendingPertain s =
     list_all (\<lambda>q. isSummaryRequest q \<longrightarrow> documentId s = Some (requestId q)) (pending s)"

section \<open>Concrete scenarios\<close>

text \<open>
  A listing whose first page is full and whose second page has four entries, loaded
  without a key.
\<close>

definition exampleDocument :: "string \<Rightarrow> Document" where
  "exampleDocument i =
     \<lparr>Document.document_id = i, filename = ''report.pdf'', upload_time = ''2024-05-01T10:00:00'',
      file_size = 2048, content_type = ''application/pdf'', processing_complete = True,
      processing_error = None\<rparr>"

definition page1 :: "Document list" where
  "page1 = map exampleDocument
     [''d01'', ''d02'', ''d03'', ''d04'', ''d05'', ''d06'', ''d07'', ''d08'', ''d09'', ''d10'']"

definition page2 :: "Document list" where
  "page2 = map exampleDocument [''d11'', ''d12'', ''d13'', ''d14'']"

definition onePage :: list_state where
  "onePage = fetchDocuments (initial []) (Response True (Some page1))"

definition twoPages :: list_state where
  "twoPages = fetchDocuments (loadMore onePage) (Response True (Some page2))"

text \<open>
  A document that has been processed (or not), its summary and its key points, and the
  requests a component without a key sends for it.
\<close>

definition exampleInfo :: "string \<Rightarrow> bool \<Rightarrow> DocumentInfo" where
  "exampleInfo i processed =
     \<lparr>DocumentInfo.document_id = i, filename = ''report.pdf'',
      upload_time = ''2024-05-01T10:00:00'', file_size = 2048,
      content_type = ''application/pdf'', text_length = Some 5120, has_docling_data = True,
      processing_complete = processed, processing_time = Some 2, processing_error = None\<rparr>"

definition exampleSummary :: "string \<Rightarrow> Summary" where
  "exampleSummary i =
     \<lparr>Summary.document_id = i, summary = ''A short report.'', processed_with_docling = True,
      processing_time = 1, tokens_used = Some 120\<rparr>"

definition exampleKeyPoints :: "string \<Rightarrow> KeyPointsResponse" where
  "exampleKeyPoints i =
     \<lparr>KeyPointsResponse.document_id = i,
      key_points = [\<lparr>point = ''Revenue grew.'', relevance = None\<rparr>],
      processed_with_docling = True, processing_time = 1, tokens_used = None\<rparr>"

definition getDocument :: "string \<Rightarrow> request" where
  "getDocument i = GetDocument i (mkHeaders [])"

definition getSummary :: "string \<Rightarrow> request" where
  "getSummary i = GetSummary i 1000 (mkHeaders [])"

definition getKeyPoints :: "string \<Rightarrow> request" where
  "getKeyPoints i = GetKeyPoints i 10 (mkHeaders [])"

text \<open>The viewer of document \<open>doc-1\<close>, mounted, and then with its metadata loaded.\<close>

definition mounted :: viewer_state where
  "mounted = mount [] (Some ''doc-1'')"

definition metadataLoaded :: event where
  "metadataLoaded = DocumentSettled (getDocument ''doc-1'') (Response True (Some (exampleInfo ''doc-1'' True)))"

text \<open>
  The answers of the service for \<open>doc-1\<close>, and the states the viewer is in after them:
  with the summary loaded; then on the query tab with a query of white space only (space,
  tab, no-break space) or the query " hi "; then after the route moved on to \<open>doc-2\<close>;
  then after a visit to the key-points tab and back.
\<close>

definition summaryLoaded :: event where
  "summaryLoaded = SummarySettled (getSummary ''doc-1'') (Response True (Some (exampleSummary ''doc-1'')))"

definition keyPointsLoaded :: event where
  "keyPointsLoaded = KeyPointsSettled (getKeyPoints ''doc-1'') (Response True (Some (exampleKeyPoints ''doc-1'')))"

definition summarised :: viewer_state where
  "summarised = run mounted [metadataLoaded, summaryLoaded]"

definition blankQuery :: viewer_state where
  "blankQuery = run summarised [SetActiveTab QueryTab, SetQuery [0x20, 0x9, 0xA0]]"

definition paddedQuery :: viewer_state where
  "paddedQuery = run summarised [SetActiveTab QueryTab, SetQuery [0x20, 0x68, 0x69, 0x20]]"

definition otherDocument :: viewer_state where
  "otherDocument = run summarised [ChangeDocumentId (Some ''doc-2'')]"

definition revisited :: viewer_state where
  "revisited = run summarised [SetActiveTab KeyPointsTab, keyPointsLoaded, SetActiveTab SummaryTab]"





definition summaryFailed :: event where
  "summaryFailed = SummarySettled (getSummary ''doc-1'') NetworkFailure"

definition failedThenQuery :: viewer_state where
  "failedThenQuery = run mounted [metadataLoaded, summaryFailed, SetActiveTab QueryTab]"

text \<open>
  A session with a document that is still being processed: the metadata arrives, and the
  handlers of every tab, of the query box and of the submission run after it (the tabs are
  not rendered for such a document; the handlers are run all the same).
\<close>

definition stillProcessing :: "event list" where
  "stillProcessing =
     [DocumentSettled (getDocument ''doc-1'') (Response True (Some (exampleInfo ''doc-1'' False))),
      SetActiveTab KeyPointsTab, SetActiveTab QueryTab, SetQuery [0x68, 0x69], SubmitQuery,
      SetActiveTab SummaryTab]"

section \<open>Properties of the collection loader\<close>

lemma fetchDocuments_failure:
  "payload r = None \<Longrightarrow>
   fetchDocuments s r =
     s\<lparr>list_state.isLoading := False,
       list_state.error := Some ''Failed to load documents. Please try again.'',
       list_state.requests :=
         list_state.requests s @ [ListDocuments ((page s - 1) * limit) limit (mkHeaders (list_state.apiKey s))]\<rparr>"
  by (simp add: fetchDocuments_def Let_def)

lemma fetchDocuments_documents:
  "documents (fetchDocuments s (Response True (Some docs))) =
     (if page s = 1 then docs else documents s @ docs)"
  by (simp add: fetchDocuments_def Let_def)

lemma fetchDocuments_hasMore:
  "hasMore (fetchDocuments s (Response True (Some docs))) =
     (hasMore s \<and> \<not> int (length docs) < limit)"
  by (simp add: fetchDocuments_def Let_def)

lemma fetchDocuments_page: "page (fetchDocuments s r) = page s"
  by (simp add: fetchDocuments_def Let_def split: option.split)

lemma fetchDocuments_hasMore_mono: "\<not> hasMore s \<Longrightarrow> \<not> hasMore (fetchDocuments s r)"
  by (simp add: fetchDocuments_def Let_def split: option.split)

lemma loaded_page: "loaded key ps s \<Longrightarrow> page s = int (length ps)"
  by (induction rule: loaded.induct)
     (simp_all add: fetchDocuments_page loadMore_def initial_def)

lemma loaded_nonempty: "loaded key ps s \<Longrightarrow> ps \<noteq> []"
  by (induction rule: loaded.induct) simp_all

lemma payload_None_iff:
  "payload r = None \<longleftrightarrow>
     r = NetworkFailure \<or> (\<exists>body. r = Response False body) \<or> r = Response True None"
  by (cases r) auto

lemma loaded_documents: "loaded key ps s \<Longrightarrow> documents s = concat ps"
proof (induction rule: loaded.induct)
  case (loaded_mount docs)
  show ?case by (simp add: fetchDocuments_documents initial_def)
next
  case (loaded_more ps s docs)
  from loaded_more.hyps(1) have "page s = int (length ps)" by (rule loaded_page)
  moreover from loaded_more.hyps(1) have "ps \<noteq> []" by (rule loaded_nonempty)
  ultimately have "page (loadMore s) \<noteq> 1" by (cases ps) (simp_all add: loadMore_def)
  then show ?case using loaded_more.IH
    by (simp add: fetchDocuments_documents loadMore_def)
qed

lemma loaded_hasMore: "loaded key ps s \<Longrightarrow> hasMore s = (\<not> int (length (last ps)) < limit)"
proof (induction rule: loaded.induct)
  case (loaded_mount docs)
  show ?case by (simp add: fetchDocuments_hasMore initial_def)
next
  case (loaded_more ps s docs)
  then show ?case by (simp add: fetchDocuments_hasMore loadMore_def loadMoreVisible_def)
qed

lemma evolves_hasMore: "evolves s t \<Longrightarrow> \<not> hasMore s \<Longrightarrow> \<not> hasMore t"
  by (induction rule: evolves.induct) (simp_all add: fetchDocuments_hasMore_mono loadMore_def)

lemma onePage_visible: "loadMoreVisible onePage"
  by (simp add: loadMoreVisible_def onePage_def fetchDocuments_def initial_def page1_def
      limit_def Let_def)

lemma loaded_twoPages: "loaded [] [page1, page2] twoPages"
proof -
  have "loaded [] [page1] onePage"
    unfolding onePage_def by (rule loaded_mount)
  then have "loaded [] ([page1] @ [page2]) twoPages"
    unfolding twoPages_def using onePage_visible by (rule loaded_more)
  then show ?thesis by simp
qed

lemma twoPages_exhausted: "\<not> hasMore twoPages"
  by (simp add: twoPages_def fetchDocuments_hasMore page2_def limit_def)

text \<open>
  Claim C3. After the pages 1..k have been loaded one after the other, each load
  succeeding, the accumulated list is the concatenation of the k pages in the order they
  were fetched: nothing is dropped, reordered or deduplicated. A successful load of page 1
  replaces the accumulated list by the entries received, and a successful load of any
  other page appends them at the end. Nothing here depends on the value of \<open>limit\<close>.
\<close>

theorem C3_accumulated_list:
  "loaded key ps s \<Longrightarrow>
     documents s = concat ps
     \<and> documents (fetchDocuments s' (Response True (Some docs))) =
         (if page s' = 1 then docs else documents s' @ docs)"
  by (simp add: loaded_documents fetchDocuments_documents)

theorem C3_accumulated_list_witness:
  "loaded [] [page1, page2] twoPages
   \<and> documents twoPages = page1 @ page2
   \<and> length (documents twoPages) = 14
   \<and> documents (fetchDocuments twoPages (Response True (Some page2))) = page1 @ page2 @ page2"
  using loaded_twoPages C3_accumulated_list [OF loaded_twoPages, of twoPages page2]
    loaded_page [OF loaded_twoPages]
  by (simp add: page1_def page2_def)

text \<open>
  Claim C4. \<open>hasMore\<close> is true before any page has loaded, and in every state reached
  by successful page loads it is false exactly when the page loaded last had strictly
  fewer than \<open>limit\<close> entries. Pages after the first are loaded by a click on "Load
  More", which is rendered only while \<open>hasMore\<close> holds.
\<close>

theorem C4_hasMore_iff_short_page:
  "loaded key ps s \<Longrightarrow>
     hasMore (initial key') \<and> ((\<not> hasMore s) = (int (length (last ps)) < limit))"
  by (simp add: loaded_hasMore initial_def)

theorem C4_hasMore_iff_short_page_witness:
  "loaded [] [page1, page2] twoPages \<and> hasMore (initial []) \<and> \<not> hasMore twoPages
   \<and> int (length (last [page1, page2])) < limit"
  using loaded_twoPages C4_hasMore_iff_short_page [OF loaded_twoPages, of "[]"]
  by (simp add: page2_def limit_def)

text \<open>
  Claim C5. A page load that ends in a network failure or a non-success status (or in a
  body that cannot be read: the three cases of \<open>payload_None_iff\<close>) sets the error
  message to exactly "Failed to load documents. Please try again." and leaves the
  accumulated list and \<open>hasMore\<close> as they were.
\<close>

theorem C5_failed_load:
  "payload r = None \<Longrightarrow>
     list_state.error (fetchDocuments s r) = Some ''Failed to load documents. Please try again.''
     \<and> documents (fetchDocuments s r) = documents s
     \<and> hasMore (fetchDocuments s r) = hasMore s"
  by (simp add: fetchDocuments_failure)

theorem C5_failed_load_witness:
  "payload (Response False (Some page2)) = None
   \<and> list_state.error (fetchDocuments (loadMore onePage) (Response False (Some page2))) =
       Some ''Failed to load documents. Please try again.''
   \<and> documents (fetchDocuments (loadMore onePage) (Response False (Some page2))) = page1
   \<and> hasMore (fetchDocuments (loadMore onePage) (Response False (Some page2)))"
  using C5_failed_load [of "Response False (Some page2)" "loadMore onePage"] onePage_visible
  by (simp add: loadMore_def loadMoreVisible_def onePage_def fetchDocuments_documents initial_def)

text \<open>
  Claim C10. \<open>hasMore\<close> starts true and only ever goes from true to false: once it is
  false, no page load, successful or failed, and no click sets it back to true.
\<close>

theorem C10_hasMore_monotone:
  "evolves s t \<Longrightarrow> \<not> hasMore s \<Longrightarrow> hasMore (initial key) \<and> \<not> hasMore t"
  by (simp add: evolves_hasMore initial_def)

theorem C10_hasMore_monotone_witness:
  "evolves twoPages (fetchDocuments (loadMore twoPages) (Response True (Some page1)))
   \<and> \<not> hasMore twoPages
   \<and> \<not> hasMore (fetchDocuments (loadMore twoPages) (Response True (Some page1)))"
proof -
  have e: "evolves twoPages (fetchDocuments (loadMore twoPages) (Response True (Some page1)))"
    by (intro evolves_fetch evolves_click evolves_refl)
  from e twoPages_exhausted C10_hasMore_monotone [OF e twoPages_exhausted, of "[]"]
  show ?thesis by simp
qed

section \<open>Properties of the document detail orchestrator\<close>

lemma trim_empty_iff: "trim q = [] \<longleftrightarrow> list_all isWhiteSpace q"
proof
  assume t: "trim q = []"
  show "list_all isWhiteSpace q"
  proof (rule ccontr)
    assume "\<not> list_all isWhiteSpace q"
    then have ne: "dropWhile isWhiteSpace q \<noteq> []"
      by (simp add: list_all_iff)
    then have "\<not> isWhiteSpace (hd (dropWhile isWhiteSpace q))"
      by (rule hd_dropWhile)
    moreover from ne have "hd (dropWhile isWhiteSpace q) \<in> set (rev (dropWhile isWhiteSpace q))"
      by simp
    moreover from t have "\<forall>c\<in>set (rev (dropWhile isWhiteSpace q)). isWhiteSpace c"
      by (simp add: trim_def)
    ultimately show False by blast
  qed
next
  assume "list_all isWhiteSpace q"
  then have "dropWhile isWhiteSpace q = []" by (auto simp: list_all_iff dest: set_dropWhileD)
  then have "trim q = rev (dropWhile isWhiteSpace (rev []))" by (simp only: trim_def)
  then show "trim q = []" by simp
qed

lemma fetchSummary_noop: "\<not> eligible s \<Longrightarrow> fetchSummary s = s"
  by (auto simp: fetchSummary_def eligible_def hasDocumentId_def split: option.splits)

lemma fetchKeyPoints_noop: "\<not> eligible s \<Longrightarrow> fetchKeyPoints s = s"
  by (auto simp: fetchKeyPoints_def eligible_def hasDocumentId_def split: option.splits)

lemma handleQuerySubmit_noop: "\<not> eligible s \<or> trim (query s) = [] \<Longrightarrow> handleQuerySubmit s = s"
  by (auto simp: handleQuerySubmit_def eligible_def hasDocumentId_def split: option.splits)

lemma requests_fetchDocumentInfo:
  "requests (fetchDocumentInfo s) = requests s @
     (case documentId s of None \<Rightarrow> [] | Some i \<Rightarrow> if i = [] then [] else [GetDocument i (mkHeaders (apiKey s))])"
  by (simp add: fetchDocumentInfo_def issue_def split: option.split)

lemma requests_fetchSummary:
  "requests (fetchSummary s) = requests s @
     (case documentId s of None \<Rightarrow> [] | Some i \<Rightarrow> if i = [] \<or> \<not> processingComplete s then [] else [GetSummary i 1000 (mkHeaders (apiKey s))])"
  by (simp add: fetchSummary_def issue_def split: option.split)

lemma requests_fetchKeyPoints:
  "requests (fetchKeyPoints s) = requests s @
     (case documentId s of None \<Rightarrow> [] | Some i \<Rightarrow> if i = [] \<or> \<not> processingComplete s then [] else [GetKeyPoints i 10 (mkHeaders (apiKey s))])"
  by (simp add: fetchKeyPoints_def issue_def split: option.split)

lemma requests_handleQuerySubmit:
  "requests (handleQuerySubmit s) = requests s @
     (case documentId s of None \<Rightarrow> [] | Some i \<Rightarrow> if trim (query s) = [] \<or> i = [] \<or> \<not> processingComplete s then [] else [PostQuery i (mkHeaders (apiKey s)) (trim (query s))])"
  by (simp add: handleQuerySubmit_def issue_def split: option.split)

lemma requests_tabEffect:
  "requests (tabEffect s) = requests s @
     (if \<not> eligible s then []
      else case documentId s of None \<Rightarrow> [] | Some i \<Rightarrow>
        (case activeTab s of SummaryTab \<Rightarrow> [GetSummary i 1000 (mkHeaders (apiKey s))]
          | KeyPointsTab \<Rightarrow> [GetKeyPoints i 10 (mkHeaders (apiKey s))]
          | QueryTab \<Rightarrow> []))"
  by (cases "activeTab s")
     (auto simp: tabEffect_def requests_fetchSummary requests_fetchKeyPoints eligible_def hasDocumentId_def
           split: option.splits)


lemma requests_settled [simp]:
  "requests (fetchDocumentInfo_settled s r1) = requests s"
  "requests (fetchSummary_settled s r2) = requests s"
  "requests (fetchKeyPoints_settled s r3) = requests s"
  "requests (handleQuerySubmit_settled s r4) = requests s"
  "requests (settle q s) = requests s"
  by (simp_all add: fetchDocumentInfo_settled_def fetchSummary_settled_def
      fetchKeyPoints_settled_def handleQuerySubmit_settled_def settle_def split: option.split)

lemma fetch_frame [simp]:
  "documentId (fetchDocumentInfo s) = documentId s" "documentInfo (fetchDocumentInfo s) = documentInfo s"
  "documentId (fetchSummary s) = documentId s" "documentInfo (fetchSummary s) = documentInfo s"
  "documentId (fetchKeyPoints s) = documentId s" "documentInfo (fetchKeyPoints s) = documentInfo s"
  "documentId (handleQuerySubmit s) = documentId s" "documentInfo (handleQuerySubmit s) = documentInfo s"
  by (simp_all add: fetchDocumentInfo_def fetchSummary_def fetchKeyPoints_def handleQuerySubmit_def
      issue_def split: option.split)

lemma effect_frame [simp]:
  "documentId (metadataEffect s) = documentId s" "documentInfo (metadataEffect s) = documentInfo s"
  "documentId (tabEffect s) = documentId s" "documentInfo (tabEffect s) = documentInfo s"
  by (simp_all add: metadataEffect_def tabEffect_def)

lemma eligible_effects [simp]:
  "eligible (metadataEffect s) = eligible s" "eligible (tabEffect s) = eligible s"
  "eligible (handleQuerySubmit s) = eligible s"
  by (simp_all add: eligible_def hasDocumentId_def processingComplete_def)

lemma requests_metadataEffect:
  "requests (metadataEffect s) = requests s @
     (case documentId s of None \<Rightarrow> [] | Some i \<Rightarrow> if i = [] then [] else [GetDocument i (mkHeaders (apiKey s))])"
  by (simp add: metadataEffect_def requests_fetchDocumentInfo)

lemma metadataEffect_issues:
  "\<exists>D. requests (metadataEffect s) = requests s @ D \<and> (\<forall>q\<in>set D. \<not> isDerivedRequest q)"
  by (cases "documentId s") (auto simp: requests_metadataEffect isDerivedRequest_def)

lemma tabEffect_issues:
  "\<exists>T. requests (tabEffect s) = requests s @ T \<and> (T \<noteq> [] \<longrightarrow> eligible s)"
  by (simp add: requests_tabEffect)

lemma handleQuerySubmit_issues:
  "\<exists>T. requests (handleQuerySubmit s) = requests s @ T \<and> (T \<noteq> [] \<longrightarrow> eligible s)"
  by (cases "documentId s")
     (simp_all add: requests_handleQuerySubmit eligible_def hasDocumentId_def)

lemma both_effects_issue:
  "\<exists>D T. requests (tabEffect (metadataEffect s)) = requests s @ D @ T
     \<and> (\<forall>q\<in>set D. \<not> isDerivedRequest q) \<and> (T \<noteq> [] \<longrightarrow> eligible s)"
proof -
  obtain D where D: "requests (metadataEffect s) = requests s @ D"
      "\<forall>q\<in>set D. \<not> isDerivedRequest q"
    using metadataEffect_issues by blast
  obtain T where T: "requests (tabEffect (metadataEffect s)) = requests (metadataEffect s) @ T"
      "T \<noteq> [] \<longrightarrow> eligible (metadataEffect s)"
    using tabEffect_issues by blast
  from D T show ?thesis by auto
qed

lemma step_issues:
  "\<exists>N. requests (step s e) = requests s @ N
     \<and> (\<forall>q\<in>set N. isDerivedRequest q \<longrightarrow> eligible (step s e))"
proof (cases e)
  case (ChangeDocumentId i)
  show ?thesis
  proof (cases "i = documentId s")
    case True
    with ChangeDocumentId show ?thesis by simp
  next
    case False
    obtain D T where *: "requests (tabEffect (metadataEffect (s\<lparr>documentId := i\<rparr>))) =
        requests (s\<lparr>documentId := i\<rparr>) @ D @ T"
      "\<forall>q\<in>set D. \<not> isDerivedRequest q" "T \<noteq> [] \<longrightarrow> eligible (s\<lparr>documentId := i\<rparr>)"
      using both_effects_issue by blast
    have "\<forall>q\<in>set (D @ T). isDerivedRequest q \<longrightarrow> eligible (step s e)"
      using * ChangeDocumentId False by auto
    moreover have "requests (step s e) = requests s @ (D @ T)"
      using * ChangeDocumentId False by simp
    ultimately show ?thesis by blast
  qed
next
  case (ChangeApiKey k)
  show ?thesis
  proof (cases "k = apiKey s")
    case True
    with ChangeApiKey show ?thesis by simp
  next
    case False
    obtain D T where *: "requests (tabEffect (metadataEffect (s\<lparr>apiKey := k\<rparr>))) =
        requests (s\<lparr>apiKey := k\<rparr>) @ D @ T"
      "\<forall>q\<in>set D. \<not> isDerivedRequest q" "T \<noteq> [] \<longrightarrow> eligible (s\<lparr>apiKey := k\<rparr>)"
      using both_effects_issue by blast
    have "\<forall>q\<in>set (D @ T). isDerivedRequest q \<longrightarrow> eligible (step s e)"
      using * ChangeApiKey False by auto
    moreover have "requests (step s e) = requests s @ (D @ T)"
      using * ChangeApiKey False by simp
    ultimately show ?thesis by blast
  qed
next
  case (SetActiveTab t)
  obtain T where *: "requests (tabEffect (s\<lparr>activeTab := t\<rparr>)) = requests (s\<lparr>activeTab := t\<rparr>) @ T"
      "T \<noteq> [] \<longrightarrow> eligible (s\<lparr>activeTab := t\<rparr>)"
    using tabEffect_issues by blast
  show ?thesis
  proof (cases "t = activeTab s")
    case True
    with SetActiveTab show ?thesis by simp
  next
    case False
    have "\<forall>q\<in>set T. isDerivedRequest q \<longrightarrow> eligible (step s e)"
      using * SetActiveTab False by auto
    moreover have "requests (step s e) = requests s @ T"
      using * SetActiveTab False by simp
    ultimately show ?thesis by blast
  qed
next
  case (SetQuery x)
  then show ?thesis by simp
next
  case SubmitQuery
  obtain T where *: "requests (handleQuerySubmit s) = requests s @ T" "T \<noteq> [] \<longrightarrow> eligible s"
    using handleQuerySubmit_issues by blast
  have "\<forall>q\<in>set T. isDerivedRequest q \<longrightarrow> eligible (step s e)"
    using * SubmitQuery by auto
  with * SubmitQuery show ?thesis by simp
next
  case (DocumentSettled q r)
  obtain T where *: "requests (tabEffect (fetchDocumentInfo_settled (settle q s) r)) =
      requests (fetchDocumentInfo_settled (settle q s) r) @ T"
      "T \<noteq> [] \<longrightarrow> eligible (fetchDocumentInfo_settled (settle q s) r)"
    using tabEffect_issues by blast
  show ?thesis
  proof (cases "q \<in> set (pending s) \<and> isDocumentRequest q \<and> payload r \<noteq> None")
    case True
    have "\<forall>q\<in>set T. isDerivedRequest q \<longrightarrow> eligible (step s e)"
      using * DocumentSettled True by auto
    moreover have "requests (step s e) = requests s @ T"
      using * DocumentSettled True by auto
    ultimately show ?thesis by blast
  next
    case False
    with DocumentSettled show ?thesis by auto
  qed
next
  case (SummarySettled q r)
  then show ?thesis by simp
next
  case (KeyPointsSettled q r)
  then show ?thesis by simp
next
  case (QuerySettled q r)
  then show ?thesis by simp
qed

lemma step_requests: "requests (step s e) = requests s @ issuedBy s e"
  using step_issues [of s e] by (auto simp: issuedBy_def)

lemma issuedBy_derived:
  "q \<in> set (issuedBy s e) \<Longrightarrow> isDerivedRequest q \<Longrightarrow> eligible (step s e)"
  using step_issues [of s e] by (auto simp: issuedBy_def)

lemma mount_requests:
  "requests (mount key i) = (case i of None \<Rightarrow> [] | Some d \<Rightarrow> if d = [] then [] else [GetDocument d (mkHeaders key)])"
  by (simp add: mount_def requests_tabEffect requests_metadataEffect eligible_def
      processingComplete_def initialViewer_def split: option.split)

lemma settled_frame [simp]:
  "documentId (fetchDocumentInfo_settled s r1) = documentId s"
  "documentId (fetchSummary_settled s r2) = documentId s"
  "documentId (fetchKeyPoints_settled s r3) = documentId s"
  "documentId (handleQuerySubmit_settled s r4) = documentId s"
  "documentId (settle q s) = documentId s"
  "documentInfo (fetchSummary_settled s r2) = documentInfo s"
  "documentInfo (fetchKeyPoints_settled s r3) = documentInfo s"
  "documentInfo (handleQuerySubmit_settled s r4) = documentInfo s"
  "documentInfo (settle q s) = documentInfo s"
  by (simp_all add: fetchDocumentInfo_settled_def fetchSummary_settled_def
      fetchKeyPoints_settled_def handleQuerySubmit_settled_def settle_def split: option.split)

lemma summary_frame [simp]:
  "viewer_state.summary (fetchDocumentInfo s) = viewer_state.summary s"
  "viewer_state.summary (fetchSummary s) = viewer_state.summary s"
  "viewer_state.summary (fetchKeyPoints s) = viewer_state.summary s"
  "viewer_state.summary (handleQuerySubmit s) = viewer_state.summary s"
  "viewer_state.summary (fetchDocumentInfo_settled s r1) = viewer_state.summary s"
  "viewer_state.summary (fetchKeyPoints_settled s r3) = viewer_state.summary s"
  "viewer_state.summary (handleQuerySubmit_settled s r4) = viewer_state.summary s"
  "viewer_state.summary (settle q s) = viewer_state.summary s"
  by (simp_all add: fetchDocumentInfo_def fetchSummary_def fetchKeyPoints_def
      handleQuerySubmit_def issue_def fetchDocumentInfo_settled_def
      fetchKeyPoints_settled_def handleQuerySubmit_settled_def settle_def split: option.split)

lemma keyPoints_frame [simp]:
  "keyPoints (fetchDocumentInfo s) = keyPoints s"
  "keyPoints (fetchSummary s) = keyPoints s"
  "keyPoints (fetchKeyPoints s) = keyPoints s"
  "keyPoints (handleQuerySubmit s) = keyPoints s"
  "keyPoints (fetchDocumentInfo_settled s r1) = keyPoints s"
  "keyPoints (fetchSummary_settled s r2) = keyPoints s"
  "keyPoints (handleQuerySubmit_settled s r4) = keyPoints s"
  "keyPoints (settle q s) = keyPoints s"
  by (simp_all add: fetchDocumentInfo_def fetchSummary_def fetchKeyPoints_def
      handleQuerySubmit_def issue_def fetchDocumentInfo_settled_def
      fetchSummary_settled_def handleQuerySubmit_settled_def settle_def split: option.split)

lemma queryResponse_frame [simp]:
  "queryResponse (fetchDocumentInfo s) = queryResponse s"
  "queryResponse (fetchSummary s) = queryResponse s"
  "queryResponse (fetchKeyPoints s) = queryResponse s"
  "queryResponse (handleQuerySubmit s) = queryResponse s"
  "queryResponse (fetchDocumentInfo_settled s r1) = queryResponse s"
  "queryResponse (fetchSummary_settled s r2) = queryResponse s"
  "queryResponse (fetchKeyPoints_settled s r3) = queryResponse s"
  "queryResponse (settle q s) = queryResponse s"
  by (simp_all add: fetchDocumentInfo_def fetchSummary_def fetchKeyPoints_def
      handleQuerySubmit_def issue_def fetchDocumentInfo_settled_def
      fetchSummary_settled_def fetchKeyPoints_settled_def settle_def split: option.split)

lemma failure_keeps [simp]:
  "payload r1 = None \<Longrightarrow> documentInfo (fetchDocumentInfo_settled s r1) = documentInfo s"
  "payload r2 = None \<Longrightarrow> viewer_state.summary (fetchSummary_settled s r2) = viewer_state.summary s"
  "payload r3 = None \<Longrightarrow> keyPoints (fetchKeyPoints_settled s r3) = keyPoints s"
  "payload r4 = None \<Longrightarrow> queryResponse (handleQuerySubmit_settled s r4) = queryResponse s"
  by (simp_all add: fetchDocumentInfo_settled_def fetchSummary_settled_def
      fetchKeyPoints_settled_def handleQuerySubmit_settled_def)

lemma failure_error:
  "payload r1 = None \<Longrightarrow>
     viewer_state.error (fetchDocumentInfo_settled s r1) = Some ''Failed to load document information.''"
  "payload r2 = None \<Longrightarrow>
     viewer_state.error (fetchSummary_settled s r2) = Some ''Failed to load document summary.''"
  "payload r3 = None \<Longrightarrow>
     viewer_state.error (fetchKeyPoints_settled s r3) = Some ''Failed to load document key points.''"
  "payload r4 = None \<Longrightarrow>
     viewer_state.error (handleQuerySubmit_settled s r4) = Some ''Failed to query the document.''"
  by (simp_all add: fetchDocumentInfo_settled_def fetchSummary_settled_def
      fetchKeyPoints_settled_def handleQuerySubmit_settled_def)

lemma effect_artifacts [simp]:
  "viewer_state.summary (metadataEffect s) = viewer_state.summary s"
  "viewer_state.summary (tabEffect s) = viewer_state.summary s"
  "keyPoints (metadataEffect s) = keyPoints s"
  "keyPoints (tabEffect s) = keyPoints s"
  "queryResponse (metadataEffect s) = queryResponse s"
  "queryResponse (tabEffect s) = queryResponse s"
  by (simp_all add: metadataEffect_def tabEffect_def)

lemma query_requests_effects [simp]:
  "filter isQueryRequest (requests (metadataEffect s)) = filter isQueryRequest (requests s)"
  "filter isQueryRequest (requests (tabEffect s)) = filter isQueryRequest (requests s)"
  by (cases "documentId s"; cases "activeTab s";
      simp add: requests_metadataEffect requests_tabEffect)+

lemma query_requests_step:
  "e \<noteq> SubmitQuery \<Longrightarrow>
   filter isQueryRequest (requests (step s e)) = filter isQueryRequest (requests s)"
  by (cases e) simp_all

lemma issuedBy_no_query:
  assumes "e \<noteq> SubmitQuery" and "q \<in> set (issuedBy s e)"
  shows "\<not> isQueryRequest q"
proof -
  from query_requests_step [OF assms(1), of s]
  have "filter isQueryRequest (issuedBy s e) = []"
    by (subst (asm) step_requests) simp
  with assms(2) show ?thesis by (auto simp: filter_empty_conv)
qed

lemma issuedBy_SubmitQuery:
  "issuedBy s SubmitQuery =
     (case documentId s of None \<Rightarrow> []
      | Some i \<Rightarrow>
          if trim (query s) = [] \<or> i = [] \<or> \<not> processingComplete s then []
          else [PostQuery i (mkHeaders (apiKey s)) (trim (query s))])"
  by (simp add: issuedBy_def requests_handleQuerySubmit)

lemma mount_no_derived: "q \<in> set (requests (mount key i)) \<Longrightarrow> isDocumentRequest q"
  by (auto simp: mount_requests split: option.splits if_splits)

lemma view_frame [simp]:
  "viewer_state.apiKey (fetchDocumentInfo s) = viewer_state.apiKey s"
  "viewer_state.apiKey (fetchSummary s) = viewer_state.apiKey s"
  "viewer_state.apiKey (fetchKeyPoints s) = viewer_state.apiKey s"
  "viewer_state.apiKey (fetchDocumentInfo_settled s r1) = viewer_state.apiKey s"
  "viewer_state.apiKey (fetchSummary_settled s r2) = viewer_state.apiKey s"
  "viewer_state.apiKey (fetchKeyPoints_settled s r3) = viewer_state.apiKey s"
  "viewer_state.apiKey (handleQuerySubmit_settled s r4) = viewer_state.apiKey s"
  "viewer_state.apiKey (settle q s) = viewer_state.apiKey s"
  "activeTab (fetchDocumentInfo s) = activeTab s"
  "activeTab (fetchSummary s) = activeTab s"
  "activeTab (fetchKeyPoints s) = activeTab s"
  "activeTab (fetchDocumentInfo_settled s r1) = activeTab s"
  "activeTab (fetchSummary_settled s r2) = activeTab s"
  "activeTab (fetchKeyPoints_settled s r3) = activeTab s"
  "activeTab (handleQuerySubmit_settled s r4) = activeTab s"
  "activeTab (settle q s) = activeTab s"
  by (simp_all add: fetchDocumentInfo_def fetchSummary_def fetchKeyPoints_def issue_def
      fetchDocumentInfo_settled_def fetchSummary_settled_def fetchKeyPoints_settled_def
      handleQuerySubmit_settled_def settle_def split: option.split)

lemma effect_view [simp]:
  "viewer_state.apiKey (tabEffect s) = viewer_state.apiKey s"
  "activeTab (tabEffect s) = activeTab s"
  by (simp_all add: tabEffect_def)

lemma issuedBy_append: "requests (step s e) = requests s @ N \<Longrightarrow> issuedBy s e = N"
  by (simp add: issuedBy_def)

lemma requests_SetActiveTab:
  assumes "eligible s" and "documentId s = Some i"
  shows "requests (step s (SetActiveTab t)) = requests s @
     (if t = activeTab s then []
      else case t of SummaryTab \<Rightarrow> [GetSummary i 1000 (mkHeaders (viewer_state.apiKey s))]
        | KeyPointsTab \<Rightarrow> [GetKeyPoints i 10 (mkHeaders (viewer_state.apiKey s))]
        | QueryTab \<Rightarrow> [])"
proof -
  from assms have "eligible (s\<lparr>activeTab := t\<rparr>)"
    by (simp add: eligible_def hasDocumentId_def processingComplete_def)
  with assms(2) show ?thesis by (cases t) (simp_all add: requests_tabEffect)
qed

lemma eligible_SetActiveTab: "eligible (step s (SetActiveTab t)) = eligible s"
  by (simp add: eligible_def hasDocumentId_def processingComplete_def)

lemma eligible_derived_settled:
  "eligible (step s (SummarySettled q r2)) = eligible s"
  "eligible (step s (KeyPointsSettled q r3)) = eligible s"
  "eligible (step s (QuerySettled q r4)) = eligible s"
  by (simp_all add: eligible_def hasDocumentId_def processingComplete_def)

lemma view_derived_settled:
  "documentId (step s (SummarySettled q r2)) = documentId s"
  "documentId (step s (KeyPointsSettled q r3)) = documentId s"
  "documentId (step s (QuerySettled q r4)) = documentId s"
  "activeTab (step s (SummarySettled q r2)) = activeTab s"
  "activeTab (step s (KeyPointsSettled q r3)) = activeTab s"
  "activeTab (step s (QuerySettled q r4)) = activeTab s"
  "viewer_state.apiKey (step s (SummarySettled q r2)) = viewer_state.apiKey s"
  "viewer_state.apiKey (step s (KeyPointsSettled q r3)) = viewer_state.apiKey s"
  "viewer_state.apiKey (step s (QuerySettled q r4)) = viewer_state.apiKey s"
  "requests (step s (SummarySettled q r2)) = requests s"
  "requests (step s (KeyPointsSettled q r3)) = requests s"
  "requests (step s (QuerySettled q r4)) = requests s"
  by simp_all

lemma view_SetActiveTab:
  "documentId (step s (SetActiveTab t)) = documentId s"
  "activeTab (step s (SetActiveTab t)) = t"
  "viewer_state.apiKey (step s (SetActiveTab t)) = viewer_state.apiKey s"
  by simp_all

lemma step_metadata_success:
  assumes "documentId s = Some i" and "i \<noteq> []" and "activeTab s = SummaryTab"
    and "q \<in> set (pending s)" and "isDocumentRequest q" and "DocumentInfo.processing_complete d"
  shows "requests (step s (DocumentSettled q (Response True (Some d)))) =
           requests s @ [GetSummary i 1000 (mkHeaders (viewer_state.apiKey s))]"
    and "eligible (step s (DocumentSettled q (Response True (Some d))))"
    and "documentId (step s (DocumentSettled q (Response True (Some d)))) = Some i"
    and "activeTab (step s (DocumentSettled q (Response True (Some d)))) = SummaryTab"
    and "viewer_state.apiKey (step s (DocumentSettled q (Response True (Some d)))) = viewer_state.apiKey s"
proof -
  let ?t = "fetchDocumentInfo_settled (settle q s) (Response True (Some d))"
  have e: "eligible ?t"
    using assms by (simp add: eligible_def hasDocumentId_def processingComplete_def
        fetchDocumentInfo_settled_def settle_def)
  have st: "step s (DocumentSettled q (Response True (Some d))) = tabEffect ?t"
    using assms by simp
  show "requests (step s (DocumentSettled q (Response True (Some d)))) =
           requests s @ [GetSummary i 1000 (mkHeaders (viewer_state.apiKey s))]"
    unfolding st using e assms by (simp add: requests_tabEffect)
  show "eligible (step s (DocumentSettled q (Response True (Some d))))"
    unfolding st using e by simp
  show "documentId (step s (DocumentSettled q (Response True (Some d)))) = Some i"
    unfolding st using assms by simp
  show "activeTab (step s (DocumentSettled q (Response True (Some d)))) = SummaryTab"
    unfolding st using assms by simp
  show "viewer_state.apiKey (step s (DocumentSettled q (Response True (Some d)))) = viewer_state.apiKey s"
    unfolding st by simp
qed

lemma summary_tab_round_trip:
  assumes "eligible s" and "documentId s = Some i" and "activeTab s = SummaryTab"
  shows "requests (run s [SummarySettled q2 r2, SetActiveTab KeyPointsTab,
            KeyPointsSettled q3 r3, SetActiveTab SummaryTab]) =
         requests s @ [GetKeyPoints i 10 (mkHeaders (viewer_state.apiKey s)),
                       GetSummary i 1000 (mkHeaders (viewer_state.apiKey s))]"
proof -
  define s1 where "s1 = step s (SummarySettled q2 r2)"
  define s2 where "s2 = step s1 (SetActiveTab KeyPointsTab)"
  define s3 where "s3 = step s2 (KeyPointsSettled q3 r3)"
  have 1: "eligible s1" "documentId s1 = Some i" "activeTab s1 = SummaryTab"
      "viewer_state.apiKey s1 = viewer_state.apiKey s" "requests s1 = requests s"
    using assms unfolding s1_def
    by (simp_all only: eligible_derived_settled view_derived_settled)
  have 2: "eligible s2" "documentId s2 = Some i" "activeTab s2 = KeyPointsTab"
      "viewer_state.apiKey s2 = viewer_state.apiKey s"
    using 1 unfolding s2_def by (simp_all only: eligible_SetActiveTab view_SetActiveTab)
  have r2: "requests s2 = requests s @ [GetKeyPoints i 10 (mkHeaders (viewer_state.apiKey s))]"
    unfolding s2_def using requests_SetActiveTab [OF 1(1) 1(2), of KeyPointsTab] 1
    by (simp del: step.simps)
  have 3: "eligible s3" "documentId s3 = Some i" "activeTab s3 = KeyPointsTab"
      "viewer_state.apiKey s3 = viewer_state.apiKey s" "requests s3 = requests s2"
    using 2 unfolding s3_def
    by (simp_all only: eligible_derived_settled view_derived_settled)
  have "requests (step s3 (SetActiveTab SummaryTab)) =
      requests s3 @ [GetSummary i 1000 (mkHeaders (viewer_state.apiKey s))]"
    using requests_SetActiveTab [OF 3(1) 3(2), of SummaryTab] 3 by (simp del: step.simps)
  with 3 r2 show ?thesis by (simp add: s1_def s2_def s3_def del: step.simps)
qed

lemma pendingPertain_fetch [simp]:
  "pendingPertain (fetchDocumentInfo s) = pendingPertain s"
  "pendingPertain (fetchSummary s) = pendingPertain s"
  "pendingPertain (fetchKeyPoints s) = pendingPertain s"
  "pendingPertain (handleQuerySubmit s) = pendingPertain s"
  by (simp_all add: pendingPertain_def fetchDocumentInfo_def fetchSummary_def
      fetchKeyPoints_def handleQuerySubmit_def issue_def split: option.split)

lemma pendingPertain_effects [simp]:
  "pendingPertain (metadataEffect s) = pendingPertain s"
  "pendingPertain (tabEffect s) = pendingPertain s"
  by (simp_all add: metadataEffect_def tabEffect_def)

lemma pendingPertain_settle: "pendingPertain s \<Longrightarrow> pendingPertain (settle q s)"
  using set_remove1_subset [of q "pending s"]
  by (auto simp: pendingPertain_def settle_def list_all_iff)

lemma pendingPertain_settled [simp]:
  "pendingPertain (fetchDocumentInfo_settled s r1) = pendingPertain s"
  "pendingPertain (fetchSummary_settled s r2) = pendingPertain s"
  "pendingPertain (fetchKeyPoints_settled s r3) = pendingPertain s"
  "pendingPertain (handleQuerySubmit_settled s r4) = pendingPertain s"
  by (simp_all add: pendingPertain_def fetchDocumentInfo_settled_def fetchSummary_settled_def
      fetchKeyPoints_settled_def handleQuerySubmit_settled_def split: option.split)

lemma pendingPertain_fields:
  "pendingPertain (s\<lparr>viewer_state.apiKey := k\<rparr>) = pendingPertain s"
  "pendingPertain (s\<lparr>activeTab := t\<rparr>) = pendingPertain s"
  "pendingPertain (s\<lparr>query := x\<rparr>) = pendingPertain s"
  by (simp_all add: pendingPertain_def)

lemma pendingPertain_step:
  "pendingPertain s \<Longrightarrow> \<not> isChangeDocumentId e \<Longrightarrow> pendingPertain (step s e)"
  by (cases e) (simp_all add: pendingPertain_settle pendingPertain_fields)

lemma summary_step:
  "viewer_state.summary (step s e) =
     (case e of
        SummarySettled q r \<Rightarrow>
          (if q \<in> set (pending s) \<and> isSummaryRequest q then
             (case payload r of Some a \<Rightarrow> Some a | None \<Rightarrow> viewer_state.summary s)
           else viewer_state.summary s)
      | _ \<Rightarrow> viewer_state.summary s)"
  by (cases e) (simp_all add: fetchSummary_settled_def split: option.split)

lemma documentId_step:
  "\<not> isChangeDocumentId e \<Longrightarrow> documentId (step s e) = documentId s"
  by (cases e) simp_all

lemma summaryPertains_step:
  assumes "pendingPertain s" and "summaryPertains s" and "\<not> isChangeDocumentId e"
    and "answersRequest e"
  shows "summaryPertains (step s e)"
proof (cases "viewer_state.summary (step s e) = viewer_state.summary s")
  case True
  with assms(2,3) show ?thesis
    by (simp add: summaryPertains_def documentId_step del: step.simps split: option.splits)
next
  case False
  then obtain q r a where e: "e = SummarySettled q r" and q: "q \<in> set (pending s)"
      "isSummaryRequest q" and r: "payload r = Some a"
      and new: "viewer_state.summary (step s e) = Some a"
    by (auto simp: summary_step simp del: step.simps split: event.splits if_splits option.splits)
  from assms(1) q have "documentId s = Some (requestId q)"
    by (simp add: pendingPertain_def list_all_iff)
  moreover from assms(4) e r have "Summary.document_id a = requestId q" by simp
  ultimately show ?thesis using new assms(3)
    by (simp add: summaryPertains_def documentId_step del: step.simps)
qed

lemma pertains_run:
  "pendingPertain s \<Longrightarrow> summaryPertains s \<Longrightarrow>
   list_all (\<lambda>e. \<not> isChangeDocumentId e \<and> answersRequest e) es \<Longrightarrow>
   summaryPertains (run s es) \<and> documentId (run s es) = documentId s"
proof (induction es arbitrary: s)
  case Nil
  then show ?case by simp
next
  case (Cons e es)
  from Cons.prems have e: "\<not> isChangeDocumentId e" "answersRequest e"
    and es: "list_all (\<lambda>e. \<not> isChangeDocumentId e \<and> answersRequest e) es" by simp_all
  have "pendingPertain (step s e)" using Cons.prems(1) e(1) by (rule pendingPertain_step)
  moreover have "summaryPertains (step s e)"
    using Cons.prems(1,2) e by (rule summaryPertains_step)
  ultimately have "summaryPertains (run (step s e) es)
      \<and> documentId (run (step s e) es) = documentId (step s e)"
    using es by (rule Cons.IH)
  with e(1) show ?case by (simp add: documentId_step del: step.simps)
qed

lemma mount_pendingPertain: "pendingPertain (mount key i)"
proof -
  have "pendingPertain (initialViewer key i)"
    by (simp add: pendingPertain_def initialViewer_def)
  then show ?thesis by (simp add: mount_def)
qed

lemma mount_summary: "viewer_state.summary (mount key i) = None" "documentId (mount key i) = i"
  by (simp_all add: mount_def initialViewer_def)

lemma mount_summaryPertains: "summaryPertains (mount key i)"
  by (simp add: summaryPertains_def mount_summary)

lemma documentInfo_step:
  "documentInfo (step s e) =
     (case e of
        DocumentSettled q r \<Rightarrow>
          (if q \<in> set (pending s) \<and> isDocumentRequest q then
             (case payload r of Some d \<Rightarrow> Some d | None \<Rightarrow> documentInfo s)
           else documentInfo s)
      | _ \<Rightarrow> documentInfo s)"
  by (cases e) (simp_all add: fetchDocumentInfo_settled_def settle_def split: option.split)

lemma incomplete_step:
  "\<not> processingComplete s \<Longrightarrow> reportsIncomplete e \<Longrightarrow> \<not> processingComplete (step s e)"
  by (cases e)
     (auto simp: processingComplete_def documentInfo_step simp del: step.simps
       split: option.splits if_splits)

lemma not_derived_iff: "\<not> isDerivedRequest q \<longleftrightarrow> isDocumentRequest q"
  by (cases q) (simp_all add: isDerivedRequest_def)

lemma incomplete_step_requests:
  assumes "\<not> processingComplete s" and "reportsIncomplete e"
    and "list_all isDocumentRequest (requests s)"
  shows "list_all isDocumentRequest (requests (step s e))"
proof -
  have "\<not> eligible (step s e)"
    using incomplete_step [OF assms(1,2)] by (simp add: eligible_def)
  then have "\<forall>q\<in>set (issuedBy s e). isDocumentRequest q"
    using issuedBy_derived [of _ s e] not_derived_iff by blast
  with assms(3) show ?thesis
    by (subst step_requests) (auto simp: list_all_iff)
qed

lemma incomplete_run:
  "\<not> processingComplete s \<Longrightarrow> list_all reportsIncomplete es \<Longrightarrow>
   list_all isDocumentRequest (requests s) \<Longrightarrow>
   list_all isDocumentRequest (requests (run s es))"
proof (induction es arbitrary: s)
  case Nil
  then show ?case by simp
next
  case (Cons e es)
  from Cons.prems have e: "reportsIncomplete e" and es: "list_all reportsIncomplete es"
    by simp_all
  have "\<not> processingComplete (step s e)" using Cons.prems(1) e by (rule incomplete_step)
  moreover have "list_all isDocumentRequest (requests (step s e))"
    using Cons.prems(1) e Cons.prems(3) by (rule incomplete_step_requests)
  ultimately have "list_all isDocumentRequest (requests (run (step s e) es))"
    using es by (intro Cons.IH)
  then show ?case by simp
qed

lemma mount_incomplete: "\<not> processingComplete (mount key i)"
  "list_all isDocumentRequest (requests (mount key i))"
proof -
  have "documentInfo (mount key i) = None" by (simp add: mount_def initialViewer_def)
  then show "\<not> processingComplete (mount key i)" by (simp add: processingComplete_def)
  show "list_all isDocumentRequest (requests (mount key i))"
    by (simp add: mount_requests split: option.split)
qed

subsection \<open>What the render shows after a failure\<close>




lemma shownError_derived_failure:
  assumes "processingComplete s"
  shows "payload r2 = None \<Longrightarrow>
           shownError (fetchSummary_settled s r2) = Some ''Failed to load document summary.''"
    and "payload r3 = None \<Longrightarrow>
           shownError (fetchKeyPoints_settled s r3) = Some ''Failed to load document key points.''"
  using assms
  by (cases "activeTab s";
      simp add: shownError_def visibleError_def processingComplete_def
        fetchSummary_settled_def fetchKeyPoints_settled_def split: option.splits)+

lemma step_query_tab:
  "step s (SetActiveTab QueryTab) = s\<lparr>activeTab := QueryTab\<rparr>"
  by (cases "activeTab s") (simp_all add: tabEffect_def)

lemma shownError_query_tab:
  assumes "processingComplete s"
  shows "shownError (step s (SetActiveTab QueryTab)) = visibleError s"
  using assms
  by (simp add: step_query_tab shownError_def visibleError_def processingComplete_def
      del: step.simps split: option.splits)

lemma visibleError_failure:
  "payload r2 = None \<Longrightarrow> visibleError (fetchSummary_settled s r2) = Some ''Failed to load document summary.''"
  "payload r3 = None \<Longrightarrow> visibleError (fetchKeyPoints_settled s r3) = Some ''Failed to load document key points.''"
  "payload r4 = None \<Longrightarrow> visibleError (handleQuerySubmit_settled s r4) = Some ''Failed to query the document.''"
  by (simp_all add: visibleError_def failure_error)

lemma processingComplete_settled:
  "processingComplete (fetchSummary_settled s r2) = processingComplete s"
  "processingComplete (fetchKeyPoints_settled s r3) = processingComplete s"
  "processingComplete (handleQuerySubmit_settled s r4) = processingComplete s"
  by (simp_all add: processingComplete_def)

subsection \<open>The concrete scenarios, evaluated\<close>

lemmas viewer_defs =
  mount_def metadataEffect_def tabEffect_def fetchDocumentInfo_def fetchSummary_def
  fetchKeyPoints_def handleQuerySubmit_def issue_def settle_def
  fetchDocumentInfo_settled_def fetchSummary_settled_def fetchKeyPoints_settled_def
  handleQuerySubmit_settled_def processingComplete_def initialViewer_def

lemmas example_defs =
  mounted_def metadataLoaded_def summaryLoaded_def keyPointsLoaded_def getDocument_def
  getSummary_def getKeyPoints_def exampleInfo_def

lemma mounted_eq:
  "mounted = \<lparr>apiKey = [], documentId = Some ''doc-1'', activeTab = SummaryTab, documentInfo = None,
      summary = None, keyPoints = None, query = [], queryResponse = None,
      isLoading = True, isQuerying = False, error = None,
      requests = [getDocument ''doc-1''], pending = [getDocument ''doc-1'']\<rparr>"
  by (simp add: viewer_defs example_defs)

lemma summarised_eq:
  "summarised = \<lparr>apiKey = [], documentId = Some ''doc-1'', activeTab = SummaryTab,
      documentInfo = Some (exampleInfo ''doc-1'' True),
      summary = Some (exampleSummary ''doc-1''), keyPoints = None, query = [], queryResponse = None,
      isLoading = False, isQuerying = False, error = None,
      requests = [getDocument ''doc-1'', getSummary ''doc-1''], pending = []\<rparr>"
  by (simp add: summarised_def mounted_eq viewer_defs metadataLoaded_def summaryLoaded_def
      getDocument_def getSummary_def exampleInfo_def)

lemma blankQuery_eq:
  "blankQuery = summarised\<lparr>activeTab := QueryTab, query := [0x20, 0x9, 0xA0]\<rparr>"
  by (simp add: blankQuery_def summarised_eq viewer_defs exampleInfo_def)

lemma paddedQuery_eq:
  "paddedQuery = summarised\<lparr>activeTab := QueryTab, query := [0x20, 0x68, 0x69, 0x20]\<rparr>"
  by (simp add: paddedQuery_def summarised_eq viewer_defs exampleInfo_def)

lemma trim_padded: "trim [0x20, 0x68, 0x69, 0x20] = [0x68, 0x69]"
  by (simp add: trim_def isWhiteSpace_def)

lemma run_stillProcessing:
  "requests (run mounted stillProcessing) = [getDocument ''doc-1'']"
  by (simp add: stillProcessing_def mounted_eq viewer_defs getDocument_def exampleInfo_def
      trim_def isWhiteSpace_def)

subsection \<open>The claims\<close>

text \<open>
  Claim C1. The three derived fetch functions check the guard themselves: when the
  identifier is missing or the stored metadata does not report
  \<open>processing_complete\<close>, each of them returns the state as it is, with no request
  and no state change, whatever tab is active. Hence, in any state and for any event,
  every summary, key-points or query request the event issues is issued while the stored
  metadata reports completion and the identifier is present. For a document whose
  metadata never reports completion, a session issues metadata requests only, whatever
  tabs are selected and whatever is submitted.
\<close>

theorem C1_derived_fetch_guarded:
  "(\<not> eligible s \<longrightarrow> fetchSummary s = s \<and> fetchKeyPoints s = s \<and> handleQuerySubmit s = s)
   \<and> requests (step s e) = requests s @ issuedBy s e
   \<and> (\<forall>q\<in>set (issuedBy s e). isDerivedRequest q \<longrightarrow> eligible (step s e))
   \<and> (list_all reportsIncomplete es \<longrightarrow>
        list_all isDocumentRequest (requests (run (mount key i) es)))"
proof (intro conjI impI ballI)
  fix q assume "q \<in> set (issuedBy s e)" "isDerivedRequest q"
  then show "eligible (step s e)" by (rule issuedBy_derived)
next
  assume "list_all reportsIncomplete es"
  with mount_incomplete(1) show "list_all isDocumentRequest (requests (run (mount key i) es))"
    using mount_incomplete(2) by (rule incomplete_run)
qed (simp_all add: fetchSummary_noop fetchKeyPoints_noop handleQuerySubmit_noop step_requests)

theorem C1_derived_fetch_guarded_witness:
  "\<not> eligible mounted
   \<and> fetchSummary mounted = mounted \<and> fetchKeyPoints mounted = mounted
   \<and> handleQuerySubmit mounted = mounted
   \<and> issuedBy mounted metadataLoaded = [getSummary ''doc-1'']
   \<and> isDerivedRequest (getSummary ''doc-1'')
   \<and> eligible (step mounted metadataLoaded)
   \<and> list_all reportsIncomplete stillProcessing
   \<and> requests (run mounted stillProcessing) = [getDocument ''doc-1'']"
proof -
  have n: "\<not> eligible mounted"
    by (simp add: mounted_eq eligible_def processingComplete_def)
  have i: "issuedBy mounted metadataLoaded = [getSummary ''doc-1'']"
    by (simp add: issuedBy_def mounted_eq metadataLoaded_def getDocument_def
        getSummary_def viewer_defs exampleInfo_def)
  have d: "isDerivedRequest (getSummary ''doc-1'')"
    by (simp add: isDerivedRequest_def getSummary_def)
  have r: "list_all reportsIncomplete stillProcessing"
    by (simp add: stillProcessing_def exampleInfo_def)
  from n i d r run_stillProcessing
    C1_derived_fetch_guarded [of mounted metadataLoaded stillProcessing "[]" "Some ''doc-1''"]
  show ?thesis by (simp add: mounted_def)
qed

text \<open>
  Claim C2, as stated, fails: the component keeps no record of what it has fetched, and
  the second effect calls \<^verbatim>\<open>fetchSummary\<close> whenever \<open>activeTab\<close> becomes
  \<open>summary\<close>. With the summary of \<open>doc-1\<close> loaded, a visit to the key-points tab
  and back leaves two summary requests in the log.
\<close>

theorem C2_second_summary_request:
  "filter isSummaryRequest (requests revisited) = [getSummary ''doc-1'', getSummary ''doc-1'']
   \<and> \<not> length (filter isSummaryRequest (requests revisited)) \<le> 1"
  by (simp add: revisited_def summarised_eq viewer_defs getDocument_def getSummary_def
      getKeyPoints_def keyPointsLoaded_def exampleInfo_def)

text \<open>
  Claim C2, amended. For a loaded document held fixed, every switch into the summary or
  key-points tab from another tab issues exactly one request for that tab's artifact, also
  when the tab has been visited before; selecting the tab that is already active, and the
  answers to derived requests, issue none. So the sequence summary, key points, summary
  issues one key-points request and two summary requests: one when the document becomes
  eligible with the summary tab active, one on the return.
\<close>

theorem C2_refetch_on_entry:
  assumes "documentId s0 = Some i" and "i \<noteq> []" and "activeTab s0 = SummaryTab"
    and "q0 \<in> set (pending s0)" and "isDocumentRequest q0"
    and "DocumentInfo.processing_complete d"
    and "eligible s" and "documentId s = Some j"
  shows "requests (run s0 [DocumentSettled q0 (Response True (Some d)), SummarySettled q2 r2,
            SetActiveTab KeyPointsTab, KeyPointsSettled q3 r3, SetActiveTab SummaryTab]) =
         requests s0 @ [GetSummary i 1000 (mkHeaders (viewer_state.apiKey s0)),
                        GetKeyPoints i 10 (mkHeaders (viewer_state.apiKey s0)),
                        GetSummary i 1000 (mkHeaders (viewer_state.apiKey s0))]
     \<and> issuedBy s (SetActiveTab t) =
         (if t = activeTab s then []
          else case t of
              SummaryTab \<Rightarrow> [GetSummary j 1000 (mkHeaders (viewer_state.apiKey s))]
            | KeyPointsTab \<Rightarrow> [GetKeyPoints j 10 (mkHeaders (viewer_state.apiKey s))]
            | QueryTab \<Rightarrow> [])
     \<and> issuedBy s (SummarySettled q r2) = []
     \<and> issuedBy s (KeyPointsSettled q r3) = []
     \<and> issuedBy s (QuerySettled q r4) = []"
proof -
  let ?s1 = "step s0 (DocumentSettled q0 (Response True (Some d)))"
  note m = step_metadata_success [OF assms(1-6)]
  have "requests (run ?s1 [SummarySettled q2 r2, SetActiveTab KeyPointsTab,
            KeyPointsSettled q3 r3, SetActiveTab SummaryTab]) =
         requests ?s1 @ [GetKeyPoints i 10 (mkHeaders (viewer_state.apiKey ?s1)),
                         GetSummary i 1000 (mkHeaders (viewer_state.apiKey ?s1))]"
    using m(2,3,4) by (rule summary_tab_round_trip)
  then have a: "requests (run s0 [DocumentSettled q0 (Response True (Some d)), SummarySettled q2 r2,
            SetActiveTab KeyPointsTab, KeyPointsSettled q3 r3, SetActiveTab SummaryTab]) =
         requests s0 @ [GetSummary i 1000 (mkHeaders (viewer_state.apiKey s0)),
                        GetKeyPoints i 10 (mkHeaders (viewer_state.apiKey s0)),
                        GetSummary i 1000 (mkHeaders (viewer_state.apiKey s0))]"
    using m(1,5) by (simp del: step.simps)
  have b: "issuedBy s (SetActiveTab t) =
         (if t = activeTab s then []
          else case t of
              SummaryTab \<Rightarrow> [GetSummary j 1000 (mkHeaders (viewer_state.apiKey s))]
            | KeyPointsTab \<Rightarrow> [GetKeyPoints j 10 (mkHeaders (viewer_state.apiKey s))]
            | QueryTab \<Rightarrow> [])"
    using requests_SetActiveTab [OF assms(7,8)] by (rule issuedBy_append)
  have c: "issuedBy s (SummarySettled q r2) = []" "issuedBy s (KeyPointsSettled q r3) = []"
      "issuedBy s (QuerySettled q r4) = []"
    by (simp_all add: issuedBy_def)
  from a b c show ?thesis by blast
qed

theorem C2_refetch_on_entry_witness:
  "documentId mounted = Some ''doc-1''
   \<and> getDocument ''doc-1'' \<in> set (pending mounted)
   \<and> eligible summarised
   \<and> requests (run mounted [metadataLoaded, summaryLoaded, SetActiveTab KeyPointsTab,
        keyPointsLoaded, SetActiveTab SummaryTab]) =
      [getDocument ''doc-1'', getSummary ''doc-1'', getKeyPoints ''doc-1'', getSummary ''doc-1'']
   \<and> issuedBy summarised (SetActiveTab KeyPointsTab) = [getKeyPoints ''doc-1'']"
proof -
  have a: "documentId mounted = Some ''doc-1''" "''doc-1'' \<noteq> []" "activeTab mounted = SummaryTab"
    "getDocument ''doc-1'' \<in> set (pending mounted)" "isDocumentRequest (getDocument ''doc-1'')"
    "DocumentInfo.processing_complete (exampleInfo ''doc-1'' True)"
    by (simp_all add: mounted_eq getDocument_def exampleInfo_def)
  have b: "eligible summarised" "documentId summarised = Some ''doc-1''"
    by (simp_all add: summarised_eq eligible_def hasDocumentId_def processingComplete_def
        exampleInfo_def)
  from a b C2_refetch_on_entry [OF a b, of "getSummary ''doc-1''"
      "Response True (Some (exampleSummary ''doc-1''))" "getKeyPoints ''doc-1''"
      "Response True (Some (exampleKeyPoints ''doc-1''))" KeyPointsTab]
  show ?thesis
    by (simp add: metadataLoaded_def summaryLoaded_def keyPointsLoaded_def mounted_eq
        summarised_eq getSummary_def getKeyPoints_def del: step.simps run.simps)
qed




text \<open>
  Claim C7, as stated, fails: the message of a failed fetch is not scoped to the tab whose
  fetch failed. The component has one \<open>error\<close> variable and every tab renders it. Here
  the summary request of \<open>doc-1\<close> fails and the user then selects the query tab: with
  nothing pending and nothing loading, the query tab displays "Failed to load document
  summary.".
\<close>

theorem C7_summary_error_on_query_tab:
  "summaryFailed = SummarySettled (getSummary ''doc-1'') NetworkFailure
   \<and> isSummaryRequest (getSummary ''doc-1'')
   \<and> activeTab failedThenQuery = QueryTab
   \<and> pending failedThenQuery = []
   \<and> \<not> viewer_state.isLoading failedThenQuery
   \<and> shownError failedThenQuery = Some ''Failed to load document summary.''"
  by (simp add: failedThenQuery_def summaryFailed_def metadataLoaded_def mounted_eq viewer_defs
      getDocument_def getSummary_def exampleInfo_def shownError_def visibleError_def)

text \<open>
  Claim C7, amended. A failing summary, key-points or query fetch sets the error message
  of the fetch that failed ("Failed to load document summary.", "Failed to load document
  key points.", "Failed to query the document."), and leaves the stored summary, key
  points, query answer and metadata as they were. The message is not scoped to a tab: it
  is held in the single \<open>error\<close> variable. For a document whose stored metadata reports
  processing complete, the message of a failed summary or key-points fetch is displayed
  on whichever tab is active when the failure settles, and selecting the query tab leaves
  the message of any of the three failures in place and displays it.
\<close>

theorem C7_failure_frame:
  "payload r2 = None \<Longrightarrow> payload r3 = None \<Longrightarrow> payload r4 = None \<Longrightarrow>
     viewer_state.error (fetchSummary_settled s r2) = Some ''Failed to load document summary.''
   \<and> viewer_state.error (fetchKeyPoints_settled s r3) = Some ''Failed to load document key points.''
   \<and> viewer_state.error (handleQuerySubmit_settled s r4) = Some ''Failed to query the document.''
   \<and> list_all (\<lambda>t. viewer_state.summary t = viewer_state.summary s \<and> keyPoints t = keyPoints s
          \<and> queryResponse t = queryResponse s \<and> documentInfo t = documentInfo s)
        [fetchSummary_settled s r2, fetchKeyPoints_settled s r3, handleQuerySubmit_settled s r4,
         step s (SummarySettled q2 r2), step s (KeyPointsSettled q3 r3), step s (QuerySettled q4 r4)]
   \<and> viewer_state.error (step s (SetActiveTab QueryTab)) = viewer_state.error s
   \<and> (processingComplete s \<longrightarrow>
        shownError (fetchSummary_settled s r2) = Some ''Failed to load document summary.''
      \<and> shownError (fetchKeyPoints_settled s r3) = Some ''Failed to load document key points.''
      \<and> shownError (step (fetchSummary_settled s r2) (SetActiveTab QueryTab)) =
          Some ''Failed to load document summary.''
      \<and> shownError (step (fetchKeyPoints_settled s r3) (SetActiveTab QueryTab)) =
          Some ''Failed to load document key points.''
      \<and> shownError (step (handleQuerySubmit_settled s r4) (SetActiveTab QueryTab)) =
          Some ''Failed to query the document.'')"
proof -
  assume f: "payload r2 = None" "payload r3 = None" "payload r4 = None"
  have frame: "viewer_state.error (fetchSummary_settled s r2) = Some ''Failed to load document summary.''
   \<and> viewer_state.error (fetchKeyPoints_settled s r3) = Some ''Failed to load document key points.''
   \<and> viewer_state.error (handleQuerySubmit_settled s r4) = Some ''Failed to query the document.''
   \<and> list_all (\<lambda>t. viewer_state.summary t = viewer_state.summary s \<and> keyPoints t = keyPoints s
          \<and> queryResponse t = queryResponse s \<and> documentInfo t = documentInfo s)
        [fetchSummary_settled s r2, fetchKeyPoints_settled s r3, handleQuerySubmit_settled s r4,
         step s (SummarySettled q2 r2), step s (KeyPointsSettled q3 r3), step s (QuerySettled q4 r4)]"
    using f by (simp add: failure_error)
  have keep: "viewer_state.error (step s (SetActiveTab QueryTab)) = viewer_state.error s"
    by (simp add: step_query_tab del: step.simps)
  have shown: "shownError (fetchSummary_settled s r2) = Some ''Failed to load document summary.''
      \<and> shownError (fetchKeyPoints_settled s r3) = Some ''Failed to load document key points.''
      \<and> shownError (step (fetchSummary_settled s r2) (SetActiveTab QueryTab)) =
          Some ''Failed to load document summary.''
      \<and> shownError (step (fetchKeyPoints_settled s r3) (SetActiveTab QueryTab)) =
          Some ''Failed to load document key points.''
      \<and> shownError (step (handleQuerySubmit_settled s r4) (SetActiveTab QueryTab)) =
          Some ''Failed to query the document.''" if p: "processingComplete s"
  proof -
    from p have c: "processingComplete (fetchSummary_settled s r2)"
        "processingComplete (fetchKeyPoints_settled s r3)"
        "processingComplete (handleQuerySubmit_settled s r4)"
      by (simp_all only: processingComplete_settled)
    show ?thesis
      using f shownError_derived_failure [OF p] c
      by (simp only: shownError_query_tab visibleError_failure simp_thms)
  qed
  from frame keep shown show ?thesis by blast
qed

theorem C7_failure_frame_witness:
  "payload (NetworkFailure :: KeyPointsResponse response) = None
   \<and> viewer_state.error (fetchKeyPoints_settled summarised NetworkFailure) =
       Some ''Failed to load document key points.''
   \<and> viewer_state.summary (fetchKeyPoints_settled summarised NetworkFailure) =
       Some (exampleSummary ''doc-1'')
   \<and> processingComplete summarised
   \<and> activeTab summarised = SummaryTab
   \<and> shownError (fetchKeyPoints_settled summarised NetworkFailure) =
       Some ''Failed to load document key points.''
   \<and> shownError (step (fetchKeyPoints_settled summarised NetworkFailure) (SetActiveTab QueryTab)) =
       Some ''Failed to load document key points.''"
proof -
  have p: "processingComplete summarised" "activeTab summarised = SummaryTab"
    by (simp_all add: summarised_eq processingComplete_def exampleInfo_def)
  have k: "viewer_state.summary summarised = Some (exampleSummary ''doc-1'')"
    by (simp add: summarised_eq)
  from p k C7_failure_frame [of "Response False None" NetworkFailure "Response False None" summarised]
  show ?thesis by (simp del: step.simps)
qed

text \<open>
  Claim C8, as stated, fails: nothing clears \<open>summary\<close> when \<open>documentId\<close>
  changes. After the route moves from \<open>doc-1\<close> to \<open>doc-2\<close> the state still holds
  the summary of \<open>doc-1\<close>.
\<close>

theorem C8_summary_of_previous_document:
  "documentId otherDocument = Some ''doc-2''
   \<and> viewer_state.summary otherDocument = Some (exampleSummary ''doc-1'')
   \<and> Summary.document_id (exampleSummary ''doc-1'') = ''doc-1''
   \<and> \<not> summaryPertains otherDocument"
  by (simp add: summaryPertains_def otherDocument_def summarised_eq viewer_defs getDocument_def
      getSummary_def exampleInfo_def exampleSummary_def)

text \<open>
  Claim C8, amended. No summary is stored at mount, and a summary enters the state only
  as the payload of a successful answer to a pending summary request. A change of the
  document identifier does not discard it. In every state reached without a change of the
  identifier, where each summary answer is the summary of the document its request names,
  a stored summary is that of the current document.
\<close>

theorem C8_summary_origin:
  "viewer_state.summary (mount key i) = None
   \<and> (viewer_state.summary (step s e) \<noteq> viewer_state.summary s \<longrightarrow>
        (\<exists>q a. e = SummarySettled q (Response True (Some a)) \<and> q \<in> set (pending s)
           \<and> isSummaryRequest q \<and> viewer_state.summary (step s e) = Some a))
   \<and> viewer_state.summary (step s (ChangeDocumentId j)) = viewer_state.summary s
   \<and> (list_all (\<lambda>e. \<not> isChangeDocumentId e \<and> answersRequest e) es \<longrightarrow>
        summaryPertains (run (mount key i) es) \<and> documentId (run (mount key i) es) = i)"
proof (intro conjI impI)
  show "viewer_state.summary (mount key i) = None" by (rule mount_summary)
  show "viewer_state.summary (step s (ChangeDocumentId j)) = viewer_state.summary s" by simp
next
  assume "viewer_state.summary (step s e) \<noteq> viewer_state.summary s"
  then obtain q r a where "e = SummarySettled q r" "q \<in> set (pending s)"
      "isSummaryRequest q" "payload r = Some a" "viewer_state.summary (step s e) = Some a"
    by (auto simp: summary_step simp del: step.simps split: event.splits if_splits option.splits)
  moreover from this have "r = Response True (Some a)"
    by (cases r) (auto split: if_splits)
  ultimately show "\<exists>q a. e = SummarySettled q (Response True (Some a)) \<and> q \<in> set (pending s)
           \<and> isSummaryRequest q \<and> viewer_state.summary (step s e) = Some a" by blast
next
  assume es: "list_all (\<lambda>e. \<not> isChangeDocumentId e \<and> answersRequest e) es"
  from pertains_run [OF mount_pendingPertain mount_summaryPertains es]
  show "summaryPertains (run (mount key i) es)" "documentId (run (mount key i) es) = i"
    by (simp_all add: mount_summary)
qed

theorem C8_summary_origin_witness:
  "list_all (\<lambda>e. \<not> isChangeDocumentId e \<and> answersRequest e) [metadataLoaded, summaryLoaded]
   \<and> summaryPertains summarised
   \<and> documentId summarised = Some ''doc-1''
   \<and> viewer_state.summary summarised = Some (exampleSummary ''doc-1'')
   \<and> viewer_state.summary (step mounted metadataLoaded) = None"
proof -
  have l: "list_all (\<lambda>e. \<not> isChangeDocumentId e \<and> answersRequest e) [metadataLoaded, summaryLoaded]"
    by (simp add: metadataLoaded_def summaryLoaded_def exampleSummary_def getSummary_def)
  have n: "viewer_state.summary (step mounted metadataLoaded) = None"
    by (simp add: metadataLoaded_def mounted_eq)
  have c: "viewer_state.summary (step (step mounted metadataLoaded) summaryLoaded) \<noteq>
      viewer_state.summary (step mounted metadataLoaded)"
    using summarised_eq n by (simp add: summarised_def del: step.simps)
  from l n c
    C8_summary_origin [of "[]" "Some ''doc-1''" "step mounted metadataLoaded" summaryLoaded
      None "[metadataLoaded, summaryLoaded]"]
  show ?thesis
    by (simp add: summarised_def mounted_def summarised_eq [unfolded summarised_def mounted_def]
        del: step.simps run.simps)
qed

text \<open>
  Claim C9. When the query text is empty or consists of white space only, submitting it
  returns the state as it is: no request, no state change. A query request is issued only
  by a submission, with a non-empty trimmed text, in an eligible state; its body is the
  trimmed text.
\<close>

theorem C9_blank_query:
  "(list_all isWhiteSpace (query s) \<longrightarrow>
      handleQuerySubmit s = s \<and> step s SubmitQuery = s \<and> issuedBy s SubmitQuery = [])
   \<and> (\<forall>q\<in>set (issuedBy s e). isQueryRequest q \<longrightarrow>
        e = SubmitQuery \<and> trim (query s) \<noteq> [] \<and> eligible s
        \<and> documentId s = Some (requestId q)
        \<and> q = PostQuery (requestId q) (mkHeaders (apiKey s)) (trim (query s)))
   \<and> (\<forall>q\<in>set (requests (mount key i)). \<not> isQueryRequest q)"
proof (intro conjI impI ballI)
  fix q assume q: "q \<in> set (issuedBy s e)" "isQueryRequest q"
  then show e: "e = SubmitQuery" using issuedBy_no_query by blast
  from q e have *: "trim (query s) \<noteq> [] \<and> eligible s \<and> documentId s = Some (requestId q)
      \<and> q = PostQuery (requestId q) (mkHeaders (apiKey s)) (trim (query s))"
    by (cases "documentId s")
       (auto simp: issuedBy_SubmitQuery eligible_def hasDocumentId_def split: if_splits)
  from * show "trim (query s) \<noteq> []" by simp
  from * show "eligible s" by simp
  from * show "documentId s = Some (requestId q)" by simp
  from * show "q = PostQuery (requestId q) (mkHeaders (apiKey s)) (trim (query s))" by simp
next
  fix q assume "q \<in> set (requests (mount key i))"
  then have "isDocumentRequest q" by (rule mount_no_derived)
  then show "\<not> isQueryRequest q" by (cases q) simp_all
next
  assume w: "list_all isWhiteSpace (query s)"
  then have t: "trim (query s) = []" by (simp add: trim_empty_iff)
  then show "handleQuerySubmit s = s" by (simp add: handleQuerySubmit_noop)
  then show "step s SubmitQuery = s" by simp
  from t show "issuedBy s SubmitQuery = []"
    by (simp add: issuedBy_SubmitQuery split: option.split)
qed

theorem C9_blank_query_witness:
  "list_all isWhiteSpace (query blankQuery)
   \<and> eligible blankQuery
   \<and> handleQuerySubmit blankQuery = blankQuery
   \<and> issuedBy blankQuery SubmitQuery = []
   \<and> issuedBy paddedQuery SubmitQuery = [PostQuery ''doc-1'' (mkHeaders []) [0x68, 0x69]]
   \<and> isQueryRequest (PostQuery ''doc-1'' (mkHeaders []) [0x68, 0x69])
   \<and> eligible paddedQuery"
proof -
  have b: "list_all isWhiteSpace (query blankQuery)"
    by (simp add: blankQuery_eq isWhiteSpace_def)
  have e: "eligible blankQuery"
    by (simp add: blankQuery_eq summarised_eq eligible_def hasDocumentId_def
        processingComplete_def exampleInfo_def)
  have p: "issuedBy paddedQuery SubmitQuery = [PostQuery ''doc-1'' (mkHeaders []) [0x68, 0x69]]"
    by (simp add: issuedBy_SubmitQuery paddedQuery_eq summarised_eq trim_padded
        processingComplete_def exampleInfo_def)
  from b e p C9_blank_query [of blankQuery SubmitQuery "[]" None]
    C9_blank_query [of paddedQuery SubmitQuery "[]" None]
  show ?thesis by simp
qed

end
